theory Spec2Isabelle
  imports
    Main
    "HOL-Library.Char_ord"
    "HOL-Library.List_Lexorder"
    "HOL-Library.Word"
    "HOL-Library.AList"
begin

section \<open>Go values used by the three packages\<close>

text \<open>
  A Go slice is either \<^verbatim>\<open>nil\<close> or a (possibly empty) sequence of elements.
  \<^verbatim>\<open>reflect.DeepEqual\<close> tells the two apart (\<^verbatim>\<open>[]string{}\<close> is not deeply equal to a
  \<^verbatim>\<open>nil\<close> slice), \<^verbatim>\<open>len\<close> and \<^verbatim>\<open>range\<close> do not. With this datatype
  \<^verbatim>\<open>reflect.DeepEqual\<close> on slices of strings or of integers is HOL equality.
\<close>

datatype 'a slice = NilSlice | Slice "'a list"

fun elems :: "'a slice \<Rightarrow> 'a list" where
  "elems NilSlice = []"
| "elems (Slice xs) = xs"

definition len :: "'a slice \<Rightarrow> nat" where
  "len s = length (elems s)"

definition DeepEqual :: "'a slice \<Rightarrow> 'a slice \<Rightarrow> bool" where
  "DeepEqual a b = (a = b)"

text \<open>
  \<^verbatim>\<open>sort.Sort(sort.StringSlice(s))\<close> orders a slice of strings by Go's \<^verbatim>\<open><\<close> on strings,
  the lexicographic order of the bytes. It sorts in place: a \<^verbatim>\<open>nil\<close> slice stays \<^verbatim>\<open>nil\<close>.
\<close>

fun sort_StringSlice :: "string slice \<Rightarrow> string slice" where
  "sort_StringSlice NilSlice = NilSlice"
| "sort_StringSlice (Slice xs) = Slice (sort xs)"

text \<open>
  An \<^verbatim>\<open>error\<close> value is either produced outside the modelled code (the operating
  system, a kernel interface, the template engine) or built by \<^verbatim>\<open>fmt.Errorf\<close> around
  another one; only the fixed prefix of the format string is kept.
\<close>

datatype error = ErrorString string | Errorf string error

text \<open>
  A panic ends the program; a goroutine that blocks on a channel send stays where it is.
  Both are results of the model, so that "does not panic" and "does not block" are
  statements about a value.
\<close>

datatype fault = IndexOutOfRange nat nat | NilDereference | PanicError error | Blocks

text \<open>A buffered channel: its capacity and the elements queued in it.\<close>

record 'a chan =
  chan_cap :: nat
  chan_buf :: "'a list"

definition make_chan :: "nat \<Rightarrow> 'a chan" where
  "make_chan n = \<lparr>chan_cap = n, chan_buf = []\<rparr>"

text \<open>
  A send can proceed when the buffer has room. \<^verbatim>\<open>ch <- x\<close> on its own waits
  otherwise; inside a \<^verbatim>\<open>select\<close> with a \<^verbatim>\<open>default\<close> branch the default branch runs.
  (On an unbuffered channel a send can also meet a waiting receiver; the only channel
  made in these packages is buffered.)
\<close>

definition can_send :: "'a chan \<Rightarrow> bool" where
  "can_send c = (length (chan_buf c) < chan_cap c)"

definition enqueue :: "'a \<Rightarrow> 'a chan \<Rightarrow> 'a chan" where
  "enqueue x c = c\<lparr>chan_buf := chan_buf c @ [x]\<rparr>"

section \<open>Package haproxy\<close>

subsection \<open>Data\<close>

record VIPConfig =
  Addr6 :: string
  ServiceAddrs :: "string slice"
  ListenPorts :: "16 word slice"
  ProxyMode :: "bool slice"

record HAProxyError =
  Error :: error
  Source :: string
  Dest :: "string slice"
  Ports :: "16 word slice"

record templateContext =
  Port :: "16 word"
  Source_ctx :: string
  Dest_ctx :: string

definition zero_templateContext :: templateContext where
  "zero_templateContext = \<lparr>Port = 0, Source_ctx = [], Dest_ctx = []\<rparr>"

text \<open>
  The template text \<^verbatim>\<open>haproxyConfig\<close> is a constant of the package that is not part of
  the sources at hand. A parsed template is therefore a function from the data it is
  executed on to the bytes it writes or the error it returns, and the result of parsing
  the constant is a parameter of \<^verbatim>\<open>NewHAProxy\<close>. A \<^verbatim>\<open>[]byte\<close> is a \<^typ>\<open>string\<close>; no
  code path compares byte slices, so \<^verbatim>\<open>nil\<close> and the empty byte slice are both \<^term>\<open>[]\<close>.
\<close>

type_synonym template = "templateContext list \<Rightarrow> error + string"

record HAProxyManager =
  binary :: string
  configDir :: string
  listenAddr :: string
  serviceAddrs :: "string slice"
  ports :: "16 word slice"
  rendered :: string
  template :: template

text \<open>
  What the package acts on outside its own structs: the files on disk, the
  \<^verbatim>\<open>SIGHUP\<close>s sent (by the listen address of the instance that sent them), the child
  processes started by \<^verbatim>\<open>go h.run()\<close>, the per-instance contexts cancelled, and the
  error channel that the set shares with all its instances. Each call into the operating
  system that can fail (\<^verbatim>\<open>os.OpenFile\<close>, \<^verbatim>\<open>f.Write\<close>, \<^verbatim>\<open>Process.Signal\<close>) takes its
  outcome from the head of \<open>outcomes\<close>; when the list is used up, calls succeed.
\<close>

record hworld =
  files :: "string \<rightharpoonup> string"
  sighups :: "string list"
  started :: "string list"
  cancelled :: "string list"
  errChan :: "HAProxyError chan"
  outcomes :: "error option list"

definition next_outcome :: "hworld \<Rightarrow> error option \<times> hworld" where
  "next_outcome w =
     (case outcomes w of
        [] \<Rightarrow> (None, w)
      | r # rs \<Rightarrow> (r, w\<lparr>outcomes := rs\<rparr>))"

record HAProxySetManager =
  sources :: "(string \<times> HAProxyManager) list"
  cancelFuncs :: "string list"
  set_binary :: string
  set_configDir :: string

subsection \<open>HAProxySetManager.GetRemovals\<close>

text \<open>
  \<^verbatim>\<open>sources\<close> is a Go map, kept here as an association list with one entry per key
  (\<^const>\<open>AList.update\<close> keeps it so). \<^verbatim>\<open>range\<close> over a map visits every key once in an
  order the runtime chooses; the order of the list stands for that choice.
\<close>

definition configured_addrs :: "HAProxySetManager \<Rightarrow> string list" where
  "configured_addrs h = map fst (sources h)"

text \<open>The inner loop: \<^verbatim>\<open>match\<close> becomes true at the first equal element.\<close>

fun match_in :: "string \<Rightarrow> string list \<Rightarrow> bool" where
  "match_in i [] = False"
| "match_in i (j # js) = (if i = j then True else match_in i js)"

text \<open>The outer loop, appending to \<^verbatim>\<open>removals\<close>.\<close>

fun removals_loop :: "string list \<Rightarrow> string list \<Rightarrow> string list \<Rightarrow> string list" where
  "removals_loop [] v6addrs removals = removals"
| "removals_loop (i # configured) v6addrs removals =
     (if match_in i v6addrs
      then removals_loop configured v6addrs removals
      else removals_loop configured v6addrs (removals @ [i]))"

definition GetRemovals :: "HAProxySetManager \<Rightarrow> string slice \<Rightarrow> string slice" where
  "GetRemovals h v6addrs = Slice (removals_loop (configured_addrs h) (elems v6addrs) [])"

subsection \<open>HAProxyManager: render, write, reload, unroll, sendError\<close>

text \<open>
  The loop of \<^verbatim>\<open>render\<close> over \<^verbatim>\<open>ports\<close>, from index \<open>i\<close> on. \<open>d\<close> is the slice made
  with \<^verbatim>\<open>len(ports)\<close> zero entries. At \<^verbatim>\<open>i == len(h.serviceAddrs)\<close> a warning is logged
  and the entry is skipped; at every other index \<^verbatim>\<open>h.serviceAddrs[i]\<close> is read, which
  panics when \<open>i\<close> is out of range. The second component collects the indices warned
  about.
\<close>

fun render_loop ::
  "HAProxyManager \<Rightarrow> nat \<Rightarrow> 16 word list \<Rightarrow> templateContext list \<times> nat list
     \<Rightarrow> fault + templateContext list \<times> nat list" where
  "render_loop h i [] acc = Inr acc"
| "render_loop h i (port # rest) (d, warned) =
     (if i = len (serviceAddrs h)
      then render_loop h (Suc i) rest (d, warned @ [i])
      else if i < len (serviceAddrs h)
      then render_loop h (Suc i) rest
             (d[i := \<lparr>Port = port, Source_ctx = listenAddr h,
                      Dest_ctx = elems (serviceAddrs h) ! i\<rparr>], warned)
      else Inl (IndexOutOfRange i (len (serviceAddrs h))))"

definition render_context ::
  "HAProxyManager \<Rightarrow> 16 word slice \<Rightarrow> fault + templateContext list \<times> nat list" where
  "render_context h p =
     render_loop h 0 (elems p) (replicate (len p) zero_templateContext, [])"

definition render :: "HAProxyManager \<Rightarrow> 16 word slice \<Rightarrow> fault + (error + string)" where
  "render h p =
     (case render_context h p of
        Inl f \<Rightarrow> Inl f
      | Inr (d, warned) \<Rightarrow> Inr (template h d))"

definition filepath_Join :: "string \<Rightarrow> string \<Rightarrow> string" where
  "filepath_Join dir name = (if dir = [] then name else dir @ ''/'' @ name)"

definition filename :: "HAProxyManager \<Rightarrow> string" where
  "filename h = filepath_Join (configDir h) (listenAddr h @ ''.conf'')"

text \<open>
  \<^verbatim>\<open>write\<close> (here \<open>write_file\<close>): \<^verbatim>\<open>os.OpenFile\<close> with
  \<^verbatim>\<open>O_CREATE|O_RDWR|O_TRUNC\<close> leaves the file empty when
  it succeeds; \<^verbatim>\<open>f.Write\<close> then stores the bytes. A failed \<^verbatim>\<open>f.Write\<close> is taken to
  have written nothing.
\<close>

definition write_file :: "HAProxyManager \<Rightarrow> string \<Rightarrow> hworld \<Rightarrow> error option \<times> hworld" where
  "write_file h b w =
     (case next_outcome w of
        (Some err, w1) \<Rightarrow> (Some err, w1)
      | (None, w1) \<Rightarrow>
          (case next_outcome (w1\<lparr>files := (files w1)(filename h \<mapsto> [])\<rparr>) of
             (Some err, w2) \<Rightarrow> (Some err, w2)
           | (None, w2) \<Rightarrow> (None, w2\<lparr>files := (files w2)(filename h \<mapsto> b)\<rparr>)))"

text \<open>
  \<^verbatim>\<open>reload\<close> sends \<^verbatim>\<open>SIGHUP\<close> to the child process. The process handle is set by the
  goroutine started in \<^verbatim>\<open>NewHAProxy\<close>; it is taken to be there.
\<close>

definition reload :: "HAProxyManager \<Rightarrow> hworld \<Rightarrow> error option \<times> hworld" where
  "reload h w = next_outcome (w\<lparr>sighups := sighups w @ [listenAddr h]\<rparr>)"

definition sendError :: "HAProxyManager \<Rightarrow> error \<Rightarrow> hworld \<Rightarrow> fault + hworld" where
  "sendError h err w =
     (let msg = \<lparr>Error = Errorf ''unable to unroll haproxy config. config on disk and config in memory may be out of sync.'' err,
                 Source = listenAddr h, Dest = serviceAddrs h, Ports = ports h\<rparr>
      in if can_send (errChan w)
         then Inr (w\<lparr>errChan := enqueue msg (errChan w)\<rparr>)
         else Inl (PanicError err))"

definition unroll :: "HAProxyManager \<Rightarrow> hworld \<Rightarrow> fault + hworld" where
  "unroll h w =
     (case write_file h (rendered h) w of
        (Some err, w1) \<Rightarrow> sendError h err w1
      | (None, w1) \<Rightarrow> Inr w1)"

subsection \<open>HAProxyManager.Reload and NewHAProxy\<close>

definition Reload ::
  "HAProxyManager \<Rightarrow> 16 word slice \<Rightarrow> hworld
     \<Rightarrow> fault + error option \<times> HAProxyManager \<times> hworld" where
  "Reload h p w =
     (if DeepEqual p (ports h) then Inr (None, h, w)
      else
        (case render h p of
           Inl f \<Rightarrow> Inl f
         | Inr (Inl err) \<Rightarrow> Inr (Some (Errorf ''error rendering configuration.'' err), h, w)
         | Inr (Inr b) \<Rightarrow>
             (case write_file h b w of
                (Some err, w1) \<Rightarrow>
                  Inr (Some (Errorf ''error writing configuration.'' err), h, w1)
              | (None, w1) \<Rightarrow>
                  (case reload h w1 of
                     (Some err, w2) \<Rightarrow>
                       (case unroll h w2 of
                          Inl f \<Rightarrow> Inl f
                        | Inr w3 \<Rightarrow>
                            Inr (Some (Errorf ''unable to reload haproxy.'' err), h, w3))
                   | (None, w2) \<Rightarrow>
                       Inr (None, h\<lparr>rendered := b, ports := p\<rparr>, w2)))))"

text \<open>
  \<^verbatim>\<open>NewHAProxy\<close>. \<open>parsed\<close> is the result of
  \<^verbatim>\<open>template.New("conf").Parse(haproxyConfig)\<close>. The struct literal leaves \<^verbatim>\<open>rendered\<close>
  at its zero value, and nothing assigns it before the function returns.
\<close>

definition NewHAProxy ::
  "error + template \<Rightarrow> string \<Rightarrow> string \<Rightarrow> string \<Rightarrow> string slice \<Rightarrow> 16 word slice
     \<Rightarrow> hworld \<Rightarrow> fault + (error + HAProxyManager) \<times> hworld" where
  "NewHAProxy parsed bin dir addr svcs p w =
     (case parsed of
        Inl err \<Rightarrow> Inr (Inl err, w)
      | Inr t \<Rightarrow>
          (let h = \<lparr>binary = bin, configDir = dir, listenAddr = addr,
                    serviceAddrs = svcs, ports = p, rendered = [], template = t\<rparr>
           in case render h p of
                Inl f \<Rightarrow> Inl f
              | Inr (Inl err) \<Rightarrow>
                  Inr (Inl (Errorf ''error rendering configuration.'' err), w)
              | Inr (Inr b) \<Rightarrow>
                  (case write_file h b w of
                     (Some err, w1) \<Rightarrow>
                       Inr (Inl (Errorf ''error writing configuration.'' err), w1)
                   | (None, w1) \<Rightarrow>
                       Inr (Inr h, w1\<lparr>started := started w1 @ [addr]\<rparr>))))"

subsection \<open>HAProxySetManager: NewHAProxySet and Configure\<close>

text \<open>\<^verbatim>\<open>NewHAProxySet\<close> returns the empty set and makes the error channel.\<close>

definition NewHAProxySet :: "string \<Rightarrow> string \<Rightarrow> hworld \<Rightarrow> HAProxySetManager \<times> hworld" where
  "NewHAProxySet bin dir w =
     (\<lparr>sources = [], cancelFuncs = [], set_binary = bin, set_configDir = dir\<rparr>,
      w\<lparr>errChan := make_chan 100\<rparr>)"

text \<open>
  \<^verbatim>\<open>Configure\<close>. The instance stored in \<^verbatim>\<open>sources\<close> is a pointer, so what \<^verbatim>\<open>Reload\<close>
  changes in it is seen through the map: the model stores the instance back.
\<close>

definition Configure ::
  "error + template \<Rightarrow> HAProxySetManager \<Rightarrow> VIPConfig \<Rightarrow> hworld
     \<Rightarrow> fault + error option \<times> HAProxySetManager \<times> hworld" where
  "Configure parsed s v w =
     (let created =
        (case map_of (sources s) (Addr6 v) of
           Some inst \<Rightarrow> Inr (Inr (s, inst), w)
         | None \<Rightarrow>
             (case NewHAProxy parsed (set_binary s) (set_configDir s) (Addr6 v)
                     (ServiceAddrs v) (ListenPorts v) w of
                Inl f \<Rightarrow> Inl f
              | Inr (Inl err, w1) \<Rightarrow>
                  Inr (Inl err, w1\<lparr>cancelled := cancelled w1 @ [Addr6 v]\<rparr>)
              | Inr (Inr inst, w1) \<Rightarrow>
                  Inr (Inr (s\<lparr>sources := AList.update (Addr6 v) inst (sources s),
                               cancelFuncs := List.insert (Addr6 v) (cancelFuncs s)\<rparr>, inst),
                       w1)))
      in case created of
           Inl f \<Rightarrow> Inl f
         | Inr (Inl err, w1) \<Rightarrow> Inr (Some err, s, w1)
         | Inr (Inr (s1, inst), w1) \<Rightarrow>
             (case Reload inst (ListenPorts v) w1 of
                Inl f \<Rightarrow> Inl f
              | Inr (r, inst', w2) \<Rightarrow>
                  Inr (r, s1\<lparr>sources := AList.update (Addr6 v) inst' (sources s1)\<rparr>, w2)))"

text \<open>
  The error branch of the supervisor loop \<^verbatim>\<open>HAProxySetManager.run\<close>, for one
  \<^verbatim>\<open>instanceError\<close> already received from the channel: the failed instance is deleted
  and created again; when that fails the error is put back with a plain send
  \<^verbatim>\<open>h.errChan <- instanceError\<close>, which waits for room in the channel.
\<close>

definition run_respawn ::
  "error + template \<Rightarrow> HAProxySetManager \<Rightarrow> HAProxyError \<Rightarrow> hworld
     \<Rightarrow> fault + HAProxySetManager \<times> hworld" where
  "run_respawn parsed s instanceError w =
     (let s0 = s\<lparr>sources := AList.delete (Source instanceError) (sources s),
                   cancelFuncs := removeAll (Source instanceError) (cancelFuncs s)\<rparr>
      in case NewHAProxy parsed (set_binary s) (set_configDir s) (Source instanceError)
                (Dest instanceError) (Ports instanceError) w of
           Inl f \<Rightarrow> Inl f
         | Inr (Inl err, w1) \<Rightarrow>
             (let w2 = w1\<lparr>cancelled := cancelled w1 @ [Source instanceError]\<rparr>
              in if can_send (errChan w2)
                 then Inr (s0, w2\<lparr>errChan := enqueue instanceError (errChan w2)\<rparr>)
                 else Inl Blocks)
         | Inr (Inr inst, w1) \<Rightarrow>
             Inr (s0\<lparr>sources := AList.update (Source instanceError) inst (sources s0),
                      cancelFuncs := List.insert (Source instanceError) (cancelFuncs s0)\<rparr>,
                  w1))"

section \<open>What the workers are given\<close>

subsection \<open>Package types\<close>

text \<open>
  Modelled from the spec: the declarations of package \<^verbatim>\<open>types\<close> (\<^verbatim>\<open>ClusterConfig\<close>,
  \<^verbatim>\<open>ServiceRef\<close>, \<^verbatim>\<open>Node\<close>, \<^verbatim>\<open>NodesList\<close>) and the chain type of package \<^verbatim>\<open>iptables\<close>
  are not among the sources; the fields are those of the data model in the specification.
  Go maps are association lists with one entry per key, and the order of a list stands
  for the order in which \<^verbatim>\<open>range\<close> visits the map. A \<^verbatim>\<open>*ClusterConfig\<close> is a
  \<^typ>\<open>'a option\<close>, \<^term>\<open>None\<close> being \<^verbatim>\<open>nil\<close>. Reading a chain that a rule set does
  not have gives the zero chain, whose \<^verbatim>\<open>Rules\<close> is \<^verbatim>\<open>nil\<close>.
\<close>

record ServiceRef =
  Namespace :: string
  Service :: string
  PortName :: string

type_synonym PortMap = "(string \<times> ServiceRef) list"

record ClusterConfig =
  Config :: "(string \<times> PortMap) list"
  Config6 :: "(string \<times> PortMap) list"
  IPV6 :: "(string \<times> string) list"

record Node =
  Name :: string
  Addresses :: "string list"
  Labels :: "(string \<times> string) list"
  Ready :: bool

type_synonym NodesList = "Node list"


record Chain =
  Policy :: string
  Counters :: string
  Rules :: "string slice"

type_synonym RulesSet = "(string \<times> Chain) list"

definition zero_Chain :: Chain where
  "zero_Chain = \<lparr>Policy = [], Counters = [], Rules = NilSlice\<rparr>"

definition chain_at :: "RulesSet \<Rightarrow> string \<Rightarrow> Chain" where
  "chain_at rs name = (case map_of rs name of None \<Rightarrow> zero_Chain | Some k \<Rightarrow> k)"

subsection \<open>The interfaces\<close>

text \<open>
  The workers reach the kernel, BGP, IPVS and iptables through interfaces whose
  implementations are not among the sources (\<^verbatim>\<open>system.IP\<close>, \<^verbatim>\<open>system.IPVS\<close>,
  \<^verbatim>\<open>bgp.Controller\<close>, \<^verbatim>\<open>iptables.IPTables\<close>), and call \<^verbatim>\<open>types.NodesEqual\<close>,
  \<^verbatim>\<open>types.NodeEqual\<close>, \<^verbatim>\<open>iptables.BytesFromRules\<close> and \<^verbatim>\<open>ioutil.WriteFile\<close>. They are
  parameters: a record of functions over a state \<open>'k\<close> that stands for everything behind
  the interfaces. A method that returns \<^verbatim>\<open>(value, error)\<close> gives a sum, \<^term>\<open>Inl\<close> the
  error. Calls to the logger and to the metrics are left out.
\<close>

record 'k system =
  lo_Get :: "'k \<Rightarrow> (error + string slice) \<times> 'k"
  lo_Compare :: "string slice \<Rightarrow> string slice \<Rightarrow> string slice \<times> string slice"
  lo_Del :: "string \<Rightarrow> 'k \<Rightarrow> error option \<times> 'k"
  lo_Add :: "string \<Rightarrow> 'k \<Rightarrow> error option \<times> 'k"
  bgp_Set :: "string slice \<Rightarrow> 'k \<Rightarrow> error option \<times> 'k"
  ipvs_SetIPVS :: "NodesList \<Rightarrow> ClusterConfig option \<Rightarrow> 'k \<Rightarrow> error option \<times> 'k"
  ipvs_CheckConfigParity ::
    "NodesList \<Rightarrow> ClusterConfig option \<Rightarrow> string slice \<Rightarrow> bool \<Rightarrow> 'k
       \<Rightarrow> (bool \<times> error option) \<times> 'k"
  ipt_Save :: "'k \<Rightarrow> (error + RulesSet) \<times> 'k"
  ipt_BaseChain :: string
  ipt_GenerateRules :: "ClusterConfig option \<Rightarrow> 'k \<Rightarrow> (error + RulesSet) \<times> 'k"
  ipt_GenerateRulesForNodes ::
    "Node \<Rightarrow> ClusterConfig option \<Rightarrow> bool \<Rightarrow> 'k \<Rightarrow> (error + RulesSet) \<times> 'k"
  ipt_Merge :: "RulesSet \<Rightarrow> RulesSet \<Rightarrow> 'k \<Rightarrow> (RulesSet \<times> nat \<times> error option) \<times> 'k"
  ipt_Restore :: "RulesSet \<Rightarrow> 'k \<Rightarrow> error option \<times> 'k"
  ipt_BytesFromRules :: "RulesSet \<Rightarrow> string"
  ioutil_WriteFile :: "string \<Rightarrow> string \<Rightarrow> 'k \<Rightarrow> error option \<times> 'k"
  types_NodesEqual :: "NodesList \<Rightarrow> NodesList \<Rightarrow> bool"
  types_NodeEqual :: "Node \<Rightarrow> Node \<Rightarrow> bool"

text \<open>
  The world of a worker: the clock, the state behind the interfaces, and a record of the
  \<^verbatim>\<open>configReady\<close> values with which \<^verbatim>\<open>CheckConfigParity\<close> has been called (kept only to
  state what the calls saw). A \<^verbatim>\<open>time.Time\<close> is a reading of the clock, the zero time
  being 0. Every \<^verbatim>\<open>time.Now()\<close> whose value is stored or compared first moves the clock
  by the head of \<open>ticks\<close> (by nothing when the list is used up): readings never
  decrease, and any non-decreasing sequence of readings is the effect of some list.
  The readings taken only to time a metric are left out.
\<close>

record 'k world =
  clock :: nat
  ticks :: "nat list"
  kern :: 'k
  parity_seen :: "bool list"

definition time_Now :: "'k world \<Rightarrow> nat \<times> 'k world" where
  "time_Now w =
     (case ticks w of
        [] \<Rightarrow> (clock w, w)
      | d # ds \<Rightarrow> (clock w + d, w\<lparr>clock := clock w + d, ticks := ds\<rparr>))"

text \<open>\<^verbatim>\<open>t.Sub(u) > 0\<close>: \<open>t\<close> is after \<open>u\<close>.\<close>

definition Sub_positive :: "nat \<Rightarrow> nat \<Rightarrow> bool" where
  "Sub_positive t u = (u < t)"

text \<open>A call through an interface acts on the state behind it.\<close>

definition call :: "('k \<Rightarrow> 'r \<times> 'k) \<Rightarrow> 'k world \<Rightarrow> 'r \<times> 'k world" where
  "call f w = (case f (kern w) of (r, k) \<Rightarrow> (r, w\<lparr>kern := k\<rparr>))"

text \<open>
  The two loops shared by every \<^verbatim>\<open>setAddresses\<close>: delete the removals, add the
  additions, and return at the first error.
\<close>

fun del_loop :: "'k system \<Rightarrow> string list \<Rightarrow> 'k world \<Rightarrow> error option \<times> 'k world" where
  "del_loop env [] w = (None, w)"
| "del_loop env (addr # rest) w =
     (case call (lo_Del env addr) w of
        (Some err, w1) \<Rightarrow> (Some err, w1)
      | (None, w1) \<Rightarrow> del_loop env rest w1)"

fun add_loop :: "'k system \<Rightarrow> string list \<Rightarrow> 'k world \<Rightarrow> error option \<times> 'k world" where
  "add_loop env [] w = (None, w)"
| "add_loop env (addr # rest) w =
     (case call (lo_Add env addr) w of
        (Some err, w1) \<Rightarrow> (Some err, w1)
      | (None, w1) \<Rightarrow> add_loop env rest w1)"

text \<open>
  The body of \<^verbatim>\<open>setAddresses\<close>, the same in both workers but for the metrics: the
  configured addresses are read first, then \<^verbatim>\<open>config.Config\<close> is read, which panics on
  a \<^verbatim>\<open>nil\<close> config.
\<close>

definition set_addresses ::
  "'k system \<Rightarrow> ClusterConfig option \<Rightarrow> 'k world \<Rightarrow> fault + error option \<times> 'k world" where
  "set_addresses env cfg w =
     (case call (lo_Get env) w of
        (Inl err, w1) \<Rightarrow> Inr (Some err, w1)
      | (Inr configured, w1) \<Rightarrow>
          (case cfg of
             None \<Rightarrow> Inl NilDereference
           | Some c \<Rightarrow>
               (case lo_Compare env configured (Slice (map fst (Config c))) of
                  (removals, additions) \<Rightarrow>
                    (case del_loop env (elems removals) w1 of
                       (Some err, w2) \<Rightarrow> Inr (Some err, w2)
                     | (None, w2) \<Rightarrow> Inr (add_loop env (elems additions) w2)))))"

section \<open>The director: bgpserver\<close>

record bgpserver =
  nodes :: NodesList
  config :: "ClusterConfig option"
  newConfig :: bool
  lastInboundUpdate :: nat
  lastReconfigure :: nat


definition setAddresses ::
  "'k system \<Rightarrow> bgpserver \<Rightarrow> 'k world \<Rightarrow> fault + error option \<times> 'k world" where
  "setAddresses env b w = set_addresses env (config b) w"

text \<open>
  \<^verbatim>\<open>configure\<close>. A method with a pointer receiver returns the receiver as the method
  leaves it.
\<close>

definition configure ::
  "'k system \<Rightarrow> bgpserver \<Rightarrow> 'k world \<Rightarrow> fault + error option \<times> bgpserver \<times> 'k world" where
  "configure env b w =
     (case setAddresses env b w of
        Inl f \<Rightarrow> Inl f
      | Inr (Some err, w1) \<Rightarrow> Inr (Some err, b, w1)
      | Inr (None, w1) \<Rightarrow>
          (case config b of
             None \<Rightarrow> Inl NilDereference
           | Some c \<Rightarrow>
               (case call (bgp_Set env (Slice (map fst (Config c)))) w1 of
                  (Some err, w2) \<Rightarrow> Inr (Some err, b, w2)
                | (None, w2) \<Rightarrow>
                    (case call (ipvs_SetIPVS env (nodes b) (config b)) w2 of
                       (Some err, w3) \<Rightarrow>
                         Inr (Some (Errorf ''unable to configure ipvs with error'' err), b, w3)
                     | (None, w3) \<Rightarrow>
                         (case time_Now w3 of
                            (now, w4) \<Rightarrow> Inr (None, b\<lparr>lastReconfigure := now\<rparr>, w4))))))"













section \<open>The realserver\<close>

text \<open>
  The fields of \<^verbatim>\<open>realserver\<close> that share a name with one of \<^verbatim>\<open>bgpserver\<close> carry the
  prefix \<open>rs_\<close>.
\<close>

record realserver =
  nodeName :: string
  rs_config :: "ClusterConfig option"
  rs_node :: Node
  rs_lastInboundUpdate :: nat
  rs_lastReconfigure :: nat
  forcedReconfigure :: bool


text \<open>
  \<^verbatim>\<open>checkConfigParity\<close>. The addresses are compared as \<^verbatim>\<open>ipLoopback.Get\<close> returned
  them; \<^verbatim>\<open>vips\<close>, \<^verbatim>\<open>existingRules\<close> and \<^verbatim>\<open>generatedRules\<close> are sorted first.
  \<^verbatim>\<open>existingRules\<close> starts as the empty, non-\<^verbatim>\<open>nil\<close> slice and is replaced only when the
  base chain is found.
\<close>

definition checkConfigParity ::
  "'k system \<Rightarrow> realserver \<Rightarrow> 'k world \<Rightarrow> (bool \<times> error option) \<times> 'k world" where
  "checkConfigParity env r w =
     (case rs_config r of
        None \<Rightarrow> ((True, None), w)
      | Some c \<Rightarrow>
          (case call (lo_Get env) w of
             (Inl err, w1) \<Rightarrow> ((False, Some err), w1)
           | (Inr addresses, w1) \<Rightarrow>
               (let vips = sort_StringSlice (Slice (map fst (Config c)))
                in case call (ipt_Save env) w1 of
                     (Inl err, w2) \<Rightarrow> ((False, Some err), w2)
                   | (Inr existing, w2) \<Rightarrow>
                       (let existingRules =
                              (case map_of existing (ipt_BaseChain env) of
                                 Some k \<Rightarrow> sort_StringSlice (Rules k)
                               | None \<Rightarrow> Slice [])
                        in case call (ipt_GenerateRules env (rs_config r)) w2 of
                             (Inl err, w3) \<Rightarrow> ((False, Some err), w3)
                           | (Inr generated, w3) \<Rightarrow>
                               (let generatedRules =
                                      sort_StringSlice
                                        (Rules (chain_at generated (ipt_BaseChain env)))
                                in ((DeepEqual vips addresses \<and>
                                     DeepEqual existingRules generatedRules, None), w3))))))"

text \<open>
  The parity condition in the words of the specification, for comparison with
  \<^verbatim>\<open>checkConfigParity\<close>: the sorted loopback addresses equal the sorted desired VIPs,
  and the sorted existing rules of the base chain equal the sorted generated ones.
\<close>

definition parity_as_specified ::
  "string list \<Rightarrow> string list \<Rightarrow> string list \<Rightarrow> string list \<Rightarrow> bool" where
  "parity_as_specified addresses vips existing generated =
     (sort addresses = sort vips \<and> sort existing = sort generated)"

definition rs_setAddresses ::
  "'k system \<Rightarrow> realserver \<Rightarrow> 'k world \<Rightarrow> fault + error option \<times> 'k world" where
  "rs_setAddresses env r w = set_addresses env (rs_config r) w"

text \<open>\<^verbatim>\<open>err.Error()\<close>: the text of an error.\<close>

fun Error_text :: "error \<Rightarrow> string" where
  "Error_text (ErrorString s) = s"
| "Error_text (Errorf prefix e) = prefix @ '' '' @ Error_text e"

definition createErrorLog :: "error option \<Rightarrow> string \<Rightarrow> string" where
  "createErrorLog err rules =
     (case err of
        None \<Rightarrow> rules
      | Some e \<Rightarrow> ''ipvs restore error: '' @ Error_text e @ [CHR 0x0A] @ rules)"

text \<open>
  \<^verbatim>\<open>configure(force)\<close> of the realserver returns \<^verbatim>\<open>(error, int)\<close>; the receiver is
  returned with it.
\<close>

definition rs_configure ::
  "'k system \<Rightarrow> realserver \<Rightarrow> bool \<Rightarrow> 'k world
     \<Rightarrow> fault + (error option \<times> nat) \<times> realserver \<times> 'k world" where
  "rs_configure env r force w =
     (let apply = (\<lambda>w0.
        (case rs_setAddresses env r w0 of
           Inl f \<Rightarrow> Inl f
         | Inr (Some err, w1) \<Rightarrow> Inr ((Some err, 0), r, w1)
         | Inr (None, w1) \<Rightarrow>
             (case call (ipt_Save env) w1 of
                (Inl err, w2) \<Rightarrow> Inr ((Some err, 0), r, w2)
              | (Inr existing, w2) \<Rightarrow>
                  (case call (ipt_GenerateRulesForNodes env (rs_node r) (rs_config r) False) w2 of
                     (Inl err, w3) \<Rightarrow> Inr ((Some err, 0), r, w3)
                   | (Inr generated, w3) \<Rightarrow>
                       (case call (ipt_Merge env generated existing) w3 of
                          ((merged, removals, Some err), w4) \<Rightarrow>
                            Inr ((Some err, removals), r, w4)
                        | ((merged, removals, None), w4) \<Rightarrow>
                            (case call (ipt_Restore env merged) w4 of
                               (Some err, w5) \<Rightarrow>
                                 (case call (ioutil_WriteFile env ''/tmp/realserver-ruleset-err''
                                              (createErrorLog (Some err)
                                                 (ipt_BytesFromRules env merged))) w5 of
                                    (writeErr, w6) \<Rightarrow> Inr ((Some err, removals), r, w6))
                             | (None, w5) \<Rightarrow> Inr ((None, removals), r, w5)))))))
      in if force then apply w
         else
           (case checkConfigParity env r w of
              ((same, Some err), w1) \<Rightarrow> Inr ((Some err, 0), r, w1)
            | ((same, None), w1) \<Rightarrow>
                (if same then Inr ((None, 0), r, w1) else apply w1)))"

text \<open>The search of \<^verbatim>\<open>watches\<close> for the node named \<^verbatim>\<open>r.nodeName\<close>.\<close>

fun find_node :: "string \<Rightarrow> NodesList \<Rightarrow> Node option" where
  "find_node name [] = None"
| "find_node name (n # ns) = (if Name n = name then Some n else find_node name ns)"

definition rs_watches_nodes ::
  "'k system \<Rightarrow> realserver \<Rightarrow> NodesList \<Rightarrow> 'k world \<Rightarrow> realserver \<times> 'k world" where
  "rs_watches_nodes env r ns w =
     (case find_node (nodeName r) ns of
        None \<Rightarrow> (r, w)
      | Some n \<Rightarrow>
          (if types_NodeEqual env (rs_node r) n then (r, w)
           else (case time_Now w of
                   (now, w1) \<Rightarrow> (r\<lparr>rs_node := n, rs_lastInboundUpdate := now\<rparr>, w1))))"

definition rs_watches_config ::
  "realserver \<Rightarrow> ClusterConfig option \<Rightarrow> 'k world \<Rightarrow> realserver \<times> 'k world" where
  "rs_watches_config r cfg w =
     (case time_Now w of
        (now, w1) \<Rightarrow> (r\<lparr>rs_config := cfg, rs_lastInboundUpdate := now\<rparr>, w1))"




text \<open>The three ticker branches of \<^verbatim>\<open>periodic\<close>.\<close>

definition force_tick ::
  "'k system \<Rightarrow> realserver \<Rightarrow> 'k world \<Rightarrow> fault + realserver \<times> 'k world" where
  "force_tick env r w =
     (if forcedReconfigure r
      then (case rs_configure env r True w of
              Inl f \<Rightarrow> Inl f
            | Inr (res, r1, w1) \<Rightarrow> Inr (r1, w1))
      else Inr (r, w))"

definition slow_tick ::
  "'k system \<Rightarrow> realserver \<Rightarrow> 'k world \<Rightarrow> fault + realserver \<times> 'k world" where
  "slow_tick env r w =
     (case rs_configure env r False w of
        Inl f \<Rightarrow> Inl f
      | Inr (res, r1, w1) \<Rightarrow> Inr (r1, w1))"

definition check_tick ::
  "'k system \<Rightarrow> realserver \<Rightarrow> 'k world \<Rightarrow> fault + realserver \<times> 'k world" where
  "check_tick env r w =
     (case time_Now w of
        (start, w0) \<Rightarrow>
          (if Sub_positive (rs_lastReconfigure r) (rs_lastInboundUpdate r) then Inr (r, w0)
           else if rs_config r = None \<or> Name (rs_node r) = [] then Inr (r, w0)
           else
             (case rs_configure env r False w0 of
                Inl f \<Rightarrow> Inl f
              | Inr ((Some err, n), r1, w1) \<Rightarrow> Inr (r1, w1)
              | Inr ((None, n), r1, w1) \<Rightarrow> Inr (r1\<lparr>rs_lastReconfigure := start\<rparr>, w1))))"




section \<open>Concrete inputs\<close>

text \<open>
  The values at which theorems are applied to concrete inputs: a template that writes one
  line per entry, the instance that \<^verbatim>\<open>NewHAProxy\<close> builds for one listen address with one
  service address and one port, and a world with an empty disk.
\<close>

definition demo_template :: template where
  "demo_template d = Inr (concat (map (\<lambda>c. ''listen '' @ Dest_ctx c @ ''; '') d))"

definition demo_instance :: HAProxyManager where
  "demo_instance =
     \<lparr>binary = ''/usr/sbin/haproxy'', configDir = ''/etc/ravel'', listenAddr = ''fd00::1'',
      serviceAddrs = Slice [''10.0.0.1:80''], ports = Slice [80], rendered = [],
      template = demo_template\<rparr>"

definition demo_hworld :: "error option list \<Rightarrow> hworld" where
  "demo_hworld script =
     \<lparr>files = Map.empty, sighups = [], started = [], cancelled = [],
      errChan = make_chan 100, outcomes = script\<rparr>"

definition demo_set :: HAProxySetManager where
  "demo_set = \<lparr>sources = [], cancelFuncs = [],
                set_binary = ''/usr/sbin/haproxy'', set_configDir = ''/etc/ravel''\<rparr>"

definition demo_vip :: VIPConfig where
  "demo_vip = \<lparr>Addr6 = ''fd00::1'', ServiceAddrs = Slice [''10.0.0.1:80''],
                ListenPorts = Slice [80], ProxyMode = NilSlice\<rparr>"

text \<open>
  A concrete instance of the interfaces, of the kind a test injects: the state behind
  them holds the addresses on the loopback device, whether the BGP speaker answers, the
  addresses announced, the number of IPVS updates and the iptables rules. \<^verbatim>\<open>Compare\<close>
  returns the configured addresses that are not desired and the desired ones that are not
  configured; the parity check of IPVS reports a difference whenever it is handed a fresh
  configuration.
\<close>

record kstate =
  lo_addrs :: "string list"
  bgp_up :: bool
  announced :: "string list"
  ipvs_sets :: nat
  rules :: RulesSet

definition demo_generate :: "ClusterConfig option \<Rightarrow> RulesSet" where
  "demo_generate cfg =
     (case cfg of
        None \<Rightarrow> []
      | Some c \<Rightarrow>
          [(''RAVEL'', \<lparr>Policy = ''-'', Counters = ''[0:0]'',
                        Rules = Slice (map (\<lambda>e. ''-d '' @ fst e) (Config c))\<rparr>)])"

definition demo_system :: "kstate system" where
  "demo_system =
     \<lparr>lo_Get = (\<lambda>k. (Inr (Slice (lo_addrs k)), k)),
      lo_Compare = (\<lambda>configured desired.
         (Slice (filter (\<lambda>a. \<not> match_in a (elems desired)) (elems configured)),
          Slice (filter (\<lambda>a. \<not> match_in a (elems configured)) (elems desired)))),
      lo_Del = (\<lambda>a k. (None, k\<lparr>lo_addrs := removeAll a (lo_addrs k)\<rparr>)),
      lo_Add = (\<lambda>a k. (None, k\<lparr>lo_addrs := lo_addrs k @ [a]\<rparr>)),
      bgp_Set = (\<lambda>addrs k.
         if bgp_up k then (None, k\<lparr>announced := elems addrs\<rparr>)
         else (Some (ErrorString ''bgp: no session''), k)),
      ipvs_SetIPVS = (\<lambda>ns cfg k. (None, k\<lparr>ipvs_sets := Suc (ipvs_sets k)\<rparr>)),
      ipvs_CheckConfigParity = (\<lambda>ns cfg addrs ready k. ((\<not> ready, None), k)),
      ipt_Save = (\<lambda>k. (Inr (rules k), k)),
      ipt_BaseChain = ''RAVEL'',
      ipt_GenerateRules = (\<lambda>cfg k. (Inr (demo_generate cfg), k)),
      ipt_GenerateRulesForNodes = (\<lambda>n cfg b k. (Inr (demo_generate cfg), k)),
      ipt_Merge = (\<lambda>generated existing k. ((generated, 0, None), k)),
      ipt_Restore = (\<lambda>merged k. (None, k\<lparr>rules := merged\<rparr>)),
      ipt_BytesFromRules = (\<lambda>rs. concat (map fst rs)),
      ioutil_WriteFile = (\<lambda>path b k. (None, k)),
      types_NodesEqual = (\<lambda>a b. a = b),
      types_NodeEqual = (\<lambda>a b. a = b)\<rparr>"


definition demo_kstate :: "string list \<Rightarrow> bool \<Rightarrow> kstate" where
  "demo_kstate addrs up =
     \<lparr>lo_addrs = addrs, bgp_up = up, announced = [], ipvs_sets = 0, rules = []\<rparr>"

definition demo_world :: "kstate \<Rightarrow> nat list \<Rightarrow> kstate world" where
  "demo_world k ds = \<lparr>clock = 100, ticks = ds, kern = k, parity_seen = []\<rparr>"

definition demo_config :: "string list \<Rightarrow> ClusterConfig" where
  "demo_config vips = \<lparr>Config = map (\<lambda>v. (v, [])) vips, Config6 = [], IPV6 = []\<rparr>"

definition demo_node :: Node where
  "demo_node = \<lparr>Name = ''n1'', Addresses = [''10.0.0.1''], Labels = [], Ready = True\<rparr>"

definition demo_bgpserver :: bgpserver where
  "demo_bgpserver =
     \<lparr>nodes = [], config = Some (demo_config [''10.10.0.1'']), newConfig = True,
      lastInboundUpdate = 100, lastReconfigure = 0\<rparr>"

definition demo_realserver :: realserver where
  "demo_realserver =
     \<lparr>nodeName = ''n1'', rs_config = Some (demo_config [''10.10.0.1'']), rs_node = demo_node,
      rs_lastInboundUpdate = 100, rs_lastReconfigure = 0, forcedReconfigure = True\<rparr>"

section \<open>Properties of package haproxy\<close>

subsection \<open>GetRemovals\<close>

lemma match_in_iff: "match_in i js = (i \<in> set js)"
  by (induction js) auto

lemma set_removals_loop:
  "set (removals_loop cs ds acc) = set acc \<union> (set cs - set ds)"
  by (induction cs arbitrary: acc) (auto simp: match_in_iff)

text \<open>
  C8. \<^verbatim>\<open>GetRemovals(desired)\<close> returns exactly the configured addresses that are not in
  the desired list: the set of its elements is the set of keys of the map \<^verbatim>\<open>h.sources\<close>
  minus the set of elements of \<^verbatim>\<open>desired\<close>.
\<close>

theorem GetRemovals_set_difference:
  "set (elems (GetRemovals h desired)) = fst ` set (sources h) - set (elems desired)"
  by (simp add: GetRemovals_def configured_addrs_def set_removals_loop)

subsection \<open>render\<close>

lemma render_loop_past_end:
  "len (serviceAddrs h) < i \<Longrightarrow> ps \<noteq> [] \<Longrightarrow>
     render_loop h i ps acc = Inl (IndexOutOfRange i (len (serviceAddrs h)))"
  by (cases ps; cases acc) auto

lemma render_loop_panics:
  "i \<le> len (serviceAddrs h) \<Longrightarrow> Suc (len (serviceAddrs h)) < i + length ps \<Longrightarrow>
     render_loop h i ps acc
       = Inl (IndexOutOfRange (Suc (len (serviceAddrs h))) (len (serviceAddrs h)))"
proof (induction ps arbitrary: i acc)
  case Nil
  then show ?case by simp
next
  case (Cons port rest)
  obtain d warned where acc: "acc = (d, warned)" by (cases acc)
  show ?case
  proof (cases "i = len (serviceAddrs h)")
    case True
    with Cons.prems have "rest \<noteq> []" by auto
    with True acc show ?thesis
      by (simp add: render_loop_past_end)
  next
    case False
    with Cons.prems have lt: "i < len (serviceAddrs h)" by simp
    with Cons.prems have "Suc i \<le> len (serviceAddrs h)"
      and "Suc (len (serviceAddrs h)) < Suc i + length rest" by simp_all
    from Cons.IH[OF this] lt acc show ?thesis by simp
  qed
qed

text \<open>With no more ports than service addresses every entry is filled and nothing is
  warned about.\<close>

lemma render_loop_within:
  "i + length ps \<le> len (serviceAddrs h) \<Longrightarrow>
     \<exists>d'. render_loop h i ps (d, warned) = Inr (d', warned) \<and> length d' = length d"
proof (induction ps arbitrary: i d)
  case Nil
  then show ?case by simp
next
  case (Cons port rest)
  let ?c = "\<lparr>Port = port, Source_ctx = listenAddr h,
              Dest_ctx = elems (serviceAddrs h) ! i\<rparr>"
  from Cons.prems have lt: "i < len (serviceAddrs h)"
    and rest: "Suc i + length rest \<le> len (serviceAddrs h)" by simp_all
  from Cons.IH[OF rest, of "d[i := ?c]"] obtain d' where
    "render_loop h (Suc i) rest (d[i := ?c], warned) = Inr (d', warned)"
    "length d' = length d" by auto
  with lt show ?case by simp
qed

text \<open>With exactly one port more than service addresses the last index is warned about
  and its entry keeps the value it had, the zero entry of \<^verbatim>\<open>make\<close>.\<close>

lemma render_loop_first_excess:
  "i + length ps = Suc (len (serviceAddrs h)) \<Longrightarrow> i \<le> len (serviceAddrs h) \<Longrightarrow>
     \<exists>d'. render_loop h i ps (d, warned) = Inr (d', warned @ [len (serviceAddrs h)])
        \<and> length d' = length d
        \<and> d' ! len (serviceAddrs h) = d ! len (serviceAddrs h)"
proof (induction ps arbitrary: i d)
  case Nil
  then show ?case by simp
next
  case (Cons port rest)
  show ?case
  proof (cases "i = len (serviceAddrs h)")
    case True
    with Cons.prems have "rest = []" by simp
    with True show ?thesis by simp
  next
    case False
    let ?c = "\<lparr>Port = port, Source_ctx = listenAddr h,
                Dest_ctx = elems (serviceAddrs h) ! i\<rparr>"
    from False Cons.prems have lt: "i < len (serviceAddrs h)"
      and rest: "Suc i + length rest = Suc (len (serviceAddrs h))"
      and le: "Suc i \<le> len (serviceAddrs h)" by simp_all
    from Cons.IH[OF rest le, of "d[i := ?c]"] obtain d' where
      "render_loop h (Suc i) rest (d[i := ?c], warned)
         = Inr (d', warned @ [len (serviceAddrs h)])"
      "length d' = length d"
      "d' ! len (serviceAddrs h) = (d[i := ?c]) ! len (serviceAddrs h)" by auto
    with lt show ?thesis by simp
  qed
qed

text \<open>
  C2. \<^verbatim>\<open>render\<close> does not succeed for every list of ports. The guard of its loop is
  \<^verbatim>\<open>i == len(h.serviceAddrs)\<close>, so only the first excess port is skipped with a warning;
  with two or more excess ports the next index reads \<^verbatim>\<open>h.serviceAddrs[i]\<close> out of range
  and the call panics, before the template is executed.
\<close>

theorem render_panics_on_second_excess_port:
  "Suc (len (serviceAddrs h)) < len p \<Longrightarrow>
     render h p = Inl (IndexOutOfRange (Suc (len (serviceAddrs h))) (len (serviceAddrs h)))"
  by (simp add: render_def render_context_def render_loop_panics len_def)

theorem render_panics_on_second_excess_port_witness:
  "Suc (len (serviceAddrs demo_instance)) < len (Slice [80, 443, 8080 :: 16 word]) \<and>
   render demo_instance (Slice [80, 443, 8080]) = Inl (IndexOutOfRange 2 1)"
  using render_panics_on_second_excess_port [of demo_instance "Slice [80, 443, 8080]"]
  by (simp add: demo_instance_def len_def)

subsection \<open>sendError\<close>

text \<open>
  C9. \<^verbatim>\<open>sendError\<close> sends on the error channel without waiting: the channel made by
  \<^verbatim>\<open>NewHAProxySet\<close> has capacity 100; the call never ends blocked; it panics exactly when
  the channel is full, and otherwise queues one message.
\<close>

theorem sendError_never_blocks:
  "chan_cap (errChan (snd (NewHAProxySet bin dir w0))) = 100 \<and>
   sendError h err w \<noteq> Inl Blocks \<and>
   (sendError h err w = Inl (PanicError err))
      = (chan_cap (errChan w) \<le> length (chan_buf (errChan w))) \<and>
   (\<exists>w'. sendError h err w = Inr w' \<and>
       length (chan_buf (errChan w')) = Suc (length (chan_buf (errChan w))))
      = (length (chan_buf (errChan w)) < chan_cap (errChan w))"
  by (auto simp: sendError_def NewHAProxySet_def make_chan_def can_send_def enqueue_def Let_def)

subsection \<open>Reload, unroll and NewHAProxy\<close>

lemma write_file_files:
  "write_file h b w = (None, w1) \<Longrightarrow> files w1 (filename h) = Some b"
  by (auto simp: write_file_def split: prod.splits option.splits)

lemma write_file_succeeds:
  "outcomes w = None # None # rest \<Longrightarrow>
     write_file h b w = (None, w\<lparr>files := (files w)(filename h \<mapsto> b), outcomes := rest\<rparr>)"
  by (simp add: write_file_def next_outcome_def)

lemma write_file_unscripted:
  "outcomes w = [] \<Longrightarrow>
     write_file h b w = (None, w\<lparr>files := (files w)(filename h \<mapsto> b)\<rparr>)"
  by (simp add: write_file_def next_outcome_def)

lemma NewHAProxy_instance:
  assumes "NewHAProxy parsed bin dir addr svcs p w = Inr (Inr h, w1)"
  shows "rendered h = []" and "ports h = p" and "listenAddr h = addr"
    and "\<exists>b. render h p = Inr (Inr b) \<and> files w1 (filename h) = Some b"
  using assms
  by (auto simp: NewHAProxy_def Let_def filename_def
           split: sum.splits prod.splits option.splits dest!: write_file_files)

text \<open>On every path on which \<^verbatim>\<open>Reload\<close> returns an error the instance is as it was.\<close>

lemma Reload_failure_keeps_fields:
  "Reload h p w = Inr (Some err, h', w') \<Longrightarrow> h' = h"
  by (auto simp: Reload_def split: if_splits sum.splits prod.splits option.splits)

lemma Reload_success_ports:
  "Reload h p w = Inr (None, h', w') \<Longrightarrow> ports h' = p"
  by (auto simp: Reload_def DeepEqual_def split: if_splits sum.splits prod.splits option.splits)

text \<open>
  C3. When the \<^verbatim>\<open>SIGHUP\<close> fails, \<^verbatim>\<open>unroll\<close> writes \<^verbatim>\<open>h.rendered\<close>, and \<^verbatim>\<open>NewHAProxy\<close>
  never stores in \<^verbatim>\<open>h.rendered\<close> the bytes it wrote. On an instance fresh from
  \<^verbatim>\<open>NewHAProxy\<close>, whose file holds the bootstrap configuration \<open>b\<close>, a \<^verbatim>\<open>Reload\<close> with
  other ports whose two writes succeed and whose signal fails returns the error with the
  instance unchanged, and leaves the file empty instead of holding \<open>b\<close> again.
\<close>

theorem Reload_unroll_after_NewHAProxy:
  assumes new: "NewHAProxy parsed bin dir addr svcs p w = Inr (Inr h, w1)"
    and rend: "render h p' = Inr (Inr b')"
    and diff: "p' \<noteq> p"
    and script: "outcomes w1 = [None, None, Some err]"
  shows "\<exists>b w2. render h p = Inr (Inr b) \<and> files w1 (filename h) = Some b \<and>
           Reload h p' w1 = Inr (Some (Errorf ''unable to reload haproxy.'' err), h, w2) \<and>
           files w2 (filename h) = Some []"
proof -
  from NewHAProxy_instance[OF new] obtain b where
    r: "rendered h = []" and p: "ports h = p"
    and b: "render h p = Inr (Inr b)" "files w1 (filename h) = Some b" by auto
  let ?w1 = "w1\<lparr>files := (files w1)(filename h \<mapsto> b'), outcomes := [Some err]\<rparr>"
  have wr: "write_file h b' w1 = (None, ?w1)"
    using script by (simp add: write_file_succeeds)
  let ?w2 = "?w1\<lparr>sighups := sighups w1 @ [listenAddr h], outcomes := []\<rparr>"
  have sig: "reload h ?w1 = (Some err, ?w2)"
    by (simp add: reload_def next_outcome_def)
  let ?w3 = "?w2\<lparr>files := (files ?w2)(filename h \<mapsto> [])\<rparr>"
  have un: "unroll h ?w2 = Inr ?w3"
    by (simp add: unroll_def r write_file_unscripted)
  have "Reload h p' w1 = Inr (Some (Errorf ''unable to reload haproxy.'' err), h, ?w3)"
    using diff p rend wr sig un by (simp add: Reload_def DeepEqual_def)
  moreover have "files ?w3 (filename h) = Some []" by simp
  ultimately show ?thesis using b by blast
qed

lemma demo_NewHAProxy:
  "NewHAProxy (Inr demo_template) ''/usr/sbin/haproxy'' ''/etc/ravel'' ''fd00::1''
       (Slice [''10.0.0.1:80'']) (Slice [80])
       (demo_hworld [None, None, None, None, Some (ErrorString ''no such process'')])
     = Inr (Inr demo_instance,
            \<lparr>files = [''/etc/ravel/fd00::1.conf'' \<mapsto> ''listen 10.0.0.1:80; ''],
             sighups = [], started = [''fd00::1''], cancelled = [],
             errChan = make_chan 100,
             outcomes = [None, None, Some (ErrorString ''no such process'')]\<rparr>)"
  by (simp add: NewHAProxy_def demo_hworld_def demo_instance_def render_def
        render_context_def len_def zero_templateContext_def demo_template_def
        write_file_def next_outcome_def filename_def filepath_Join_def)

lemma demo_render_443:
  "render demo_instance (Slice [443]) = Inr (Inr ''listen 10.0.0.1:80; '')"
  by (simp add: demo_instance_def render_def render_context_def len_def
        zero_templateContext_def demo_template_def)

theorem Reload_unroll_after_NewHAProxy_witness:
  "\<exists>w1 b w2.
     NewHAProxy (Inr demo_template) ''/usr/sbin/haproxy'' ''/etc/ravel'' ''fd00::1''
         (Slice [''10.0.0.1:80'']) (Slice [80])
         (demo_hworld [None, None, None, None, Some (ErrorString ''no such process'')])
       = Inr (Inr demo_instance, w1) \<and>
     outcomes w1 = [None, None, Some (ErrorString ''no such process'')] \<and>
     render demo_instance (Slice [80]) = Inr (Inr b) \<and>
     files w1 (filename demo_instance) = Some b \<and> b = ''listen 10.0.0.1:80; '' \<and>
     Reload demo_instance (Slice [443]) w1
       = Inr (Some (Errorf ''unable to reload haproxy.'' (ErrorString ''no such process'')),
              demo_instance, w2) \<and>
     files w2 (filename demo_instance) = Some []"
proof -
  let ?w1 = "\<lparr>files = [''/etc/ravel/fd00::1.conf'' \<mapsto> ''listen 10.0.0.1:80; ''],
             sighups = [], started = [''fd00::1''], cancelled = [],
             errChan = make_chan 100,
             outcomes = [None, None, Some (ErrorString ''no such process'')]\<rparr>"
  have diff: "Slice [443 :: 16 word] \<noteq> Slice [80]" by simp
  have script: "outcomes ?w1 = [None, None, Some (ErrorString ''no such process'')]" by simp
  from Reload_unroll_after_NewHAProxy [OF demo_NewHAProxy demo_render_443 diff script]
  obtain b w2 where
    "render demo_instance (Slice [80]) = Inr (Inr b)"
    "files ?w1 (filename demo_instance) = Some b"
    "Reload demo_instance (Slice [443]) ?w1
       = Inr (Some (Errorf ''unable to reload haproxy.'' (ErrorString ''no such process'')),
              demo_instance, w2)"
    "files w2 (filename demo_instance) = Some []" by blast
  moreover from this(2) have "b = ''listen 10.0.0.1:80; ''"
    by (simp add: filename_def filepath_Join_def demo_instance_def)
  ultimately show ?thesis using demo_NewHAProxy script by blast
qed

subsection \<open>Reload with the current ports, and Configure twice\<close>

lemma map_of_update_same: "map_of (AList.update k v al) k = Some v"
  by (simp add: update_conv')

text \<open>
  C4. \<^verbatim>\<open>Reload\<close> with the instance's current ports returns \<^verbatim>\<open>nil\<close> and changes neither
  the instance nor the world: nothing is rendered or written and no \<^verbatim>\<open>SIGHUP\<close> is sent.
  After a \<^verbatim>\<open>Configure(v)\<close> that returned \<^verbatim>\<open>nil\<close>, a \<^verbatim>\<open>Configure\<close> for the same address
  with the same \<^verbatim>\<open>ListenPorts\<close> returns \<^verbatim>\<open>nil\<close> and leaves the set and the world (its
  files and the \<^verbatim>\<open>SIGHUP\<close>s sent) as they were.
\<close>

theorem Reload_same_ports_noop:
  assumes first: "Configure parsed s v w = Inr (None, s1, w1)"
    and addr: "Addr6 v' = Addr6 v" and same: "ListenPorts v' = ListenPorts v"
  shows "Reload h (ports h) w0 = Inr (None, h, w0) \<and>
         Configure parsed s1 v' w1 = Inr (None, s1, w1)"
proof
  show "Reload h (ports h) w0 = Inr (None, h, w0)"
    by (simp add: Reload_def DeepEqual_def)
next
  from first obtain inst where
    look: "map_of (sources s1) (Addr6 v) = Some inst" and pt: "ports inst = ListenPorts v"
    by (auto simp: Configure_def Let_def map_of_update_same
             split: option.splits sum.splits prod.splits dest: Reload_success_ports)
  have "Reload inst (ListenPorts v') w1 = Inr (None, inst, w1)"
    using pt same by (simp add: Reload_def DeepEqual_def)
  moreover have "AList.update (Addr6 v) inst (sources s1) = sources s1"
    using look by (rule update_triv)
  ultimately show "Configure parsed s1 v' w1 = Inr (None, s1, w1)"
    using look addr by (simp add: Configure_def)
qed

lemma demo_Configure:
  "Configure (Inr demo_template) demo_set demo_vip (demo_hworld [])
     = Inr (None,
            demo_set\<lparr>sources := [(''fd00::1'', demo_instance)], cancelFuncs := [''fd00::1'']\<rparr>,
            (demo_hworld [])
              \<lparr>files := [''/etc/ravel/fd00::1.conf'' \<mapsto> ''listen 10.0.0.1:80; ''],
               started := [''fd00::1'']\<rparr>)"
  by (simp add: Configure_def NewHAProxy_def Reload_def DeepEqual_def demo_set_def
        demo_vip_def demo_hworld_def demo_instance_def render_def render_context_def len_def
        zero_templateContext_def demo_template_def write_file_def next_outcome_def
        filename_def filepath_Join_def)

theorem Reload_same_ports_noop_witness:
  "\<exists>s1 w1.
     Configure (Inr demo_template) demo_set demo_vip (demo_hworld []) = Inr (None, s1, w1) \<and>
     sighups w1 = [] \<and>
     Reload demo_instance (ports demo_instance) (demo_hworld [])
       = Inr (None, demo_instance, demo_hworld []) \<and>
     Configure (Inr demo_template) s1 demo_vip w1 = Inr (None, s1, w1)"
  using Reload_same_ports_noop [OF demo_Configure refl refl, of demo_instance "demo_hworld []"]
    demo_Configure
  by (simp add: demo_hworld_def)

section \<open>Properties of the workers\<close>

subsection \<open>What a call leaves alone\<close>







lemma configure_error_unchanged:
  "configure env b w = Inr (Some err, b', w') \<Longrightarrow> b' = b"
  by (auto simp: configure_def split: prod.splits sum.splits option.splits)


subsection \<open>The director's configure\<close>

text \<open>
  C7. In the director's \<^verbatim>\<open>configure\<close> an error of \<^verbatim>\<open>setAddresses\<close>, of \<^verbatim>\<open>bgp.Set\<close> or
  of \<^verbatim>\<open>ipvs.SetIPVS\<close> is returned at once, from the world as that step left it, and
  whenever \<^verbatim>\<open>configure\<close> returns an error the worker is unchanged, so
  \<^verbatim>\<open>lastReconfigure\<close> is not advanced. When \<^verbatim>\<open>bgp.Set\<close> fails the world returned is
  the one in which \<^verbatim>\<open>setAddresses\<close> had applied its removals and additions, changed
  only by the failed call itself: nothing is undone.
\<close>

theorem configure_aborts_on_error:
  "(setAddresses env b w = Inr (Some err, w1) \<longrightarrow> configure env b w = Inr (Some err, b, w1)) \<and>
   (setAddresses env b w = Inr (None, w1) \<and> config b = Some c \<and>
    call (bgp_Set env (Slice (map fst (Config c)))) w1 = (Some err, w2)
      \<longrightarrow> configure env b w = Inr (Some err, b, w2)) \<and>
   (setAddresses env b w = Inr (None, w1) \<and> config b = Some c \<and>
    call (bgp_Set env (Slice (map fst (Config c)))) w1 = (None, w2) \<and>
    call (ipvs_SetIPVS env (nodes b) (config b)) w2 = (Some err, w3)
      \<longrightarrow> configure env b w
            = Inr (Some (Errorf ''unable to configure ipvs with error'' err), b, w3)) \<and>
   (configure env b w = Inr (Some err, b', w')
      \<longrightarrow> b' = b \<and> lastReconfigure b' = lastReconfigure b)"
  by (auto simp: configure_def split: prod.splits sum.splits option.splits)

lemma demo_setAddresses:
  "setAddresses demo_system demo_bgpserver (demo_world (demo_kstate [] False) [])
     = Inr (None, demo_world (demo_kstate [''10.10.0.1''] False) [])"
  by (simp add: setAddresses_def set_addresses_def call_def demo_system_def demo_world_def
        demo_kstate_def demo_config_def demo_bgpserver_def)

theorem configure_aborts_on_error_witness:
  "setAddresses demo_system demo_bgpserver (demo_world (demo_kstate [] False) [])
     = Inr (None, demo_world (demo_kstate [''10.10.0.1''] False) []) \<and>
   call (bgp_Set demo_system (Slice [''10.10.0.1'']))
      (demo_world (demo_kstate [''10.10.0.1''] False) [])
     = (Some (ErrorString ''bgp: no session''),
        demo_world (demo_kstate [''10.10.0.1''] False) []) \<and>
   configure demo_system demo_bgpserver (demo_world (demo_kstate [] False) [])
     = Inr (Some (ErrorString ''bgp: no session''), demo_bgpserver,
            demo_world (demo_kstate [''10.10.0.1''] False) []) \<and>
   lo_addrs (kern (demo_world (demo_kstate [''10.10.0.1''] False) [])) = [''10.10.0.1'']"
proof -
  let ?b = "demo_bgpserver"
  let ?w1 = "demo_world (demo_kstate [''10.10.0.1''] False) []"
  have cfg: "config ?b = Some (demo_config [''10.10.0.1''])"
    by (simp add: demo_bgpserver_def)
  have bgp: "call (bgp_Set demo_system (Slice (map fst (Config (demo_config [''10.10.0.1''])))))
               ?w1 = (Some (ErrorString ''bgp: no session''), ?w1)"
    by (simp add: call_def demo_system_def demo_world_def demo_kstate_def demo_config_def)
  from configure_aborts_on_error
         [of demo_system ?b "demo_world (demo_kstate [] False) []"
             "ErrorString ''bgp: no session''" ?w1 "demo_config [''10.10.0.1'']" ?w1]
       demo_setAddresses cfg bgp
  have "configure demo_system ?b (demo_world (demo_kstate [] False) [])
          = Inr (Some (ErrorString ''bgp: no session''), ?b, ?w1)" by blast
  moreover have "lo_addrs (kern ?w1) = [''10.10.0.1'']"
    by (simp add: demo_world_def demo_kstate_def)
  moreover from bgp have "call (bgp_Set demo_system (Slice [''10.10.0.1''])) ?w1
       = (Some (ErrorString ''bgp: no session''), ?w1)"
    by (simp add: demo_config_def)
  ultimately show ?thesis using demo_setAddresses by blast
qed


subsection \<open>The realserver's lastReconfigure\<close>

text \<open>The realserver's \<^verbatim>\<open>configure\<close> assigns no field of the receiver.\<close>

lemma rs_configure_receiver:
  "rs_configure env r force w = Inr (res, r', w') \<Longrightarrow> r' = r"
  by (auto simp: rs_configure_def Let_def
           split: if_splits prod.splits sum.splits option.splits)

text \<open>
  C10. In the realserver \<^verbatim>\<open>lastReconfigure\<close> is assigned only in the 100 ms branch of
  \<^verbatim>\<open>periodic\<close>: \<^verbatim>\<open>configure\<close> returns the receiver as it was; the forced (10 min)
  branch, the 60 s branch and both branches of \<^verbatim>\<open>watches\<close> leave the field alone
  whatever \<^verbatim>\<open>configure\<close> returns; and the 100 ms branch sets it (to the time read at
  the start of the branch) exactly when the throttle does not hold, the config and the
  node name are known and \<^verbatim>\<open>configure(false)\<close> returns no error.
\<close>

theorem rs_lastReconfigure_only_by_check_tick:
  "(rs_configure env r force w = Inr (res, r', w') \<longrightarrow> r' = r) \<and>
   (force_tick env r w = Inr (r', w') \<longrightarrow> rs_lastReconfigure r' = rs_lastReconfigure r) \<and>
   (slow_tick env r w = Inr (r', w') \<longrightarrow> rs_lastReconfigure r' = rs_lastReconfigure r) \<and>
   rs_lastReconfigure (fst (rs_watches_config r cfg w)) = rs_lastReconfigure r \<and>
   rs_lastReconfigure (fst (rs_watches_nodes env r ns w)) = rs_lastReconfigure r \<and>
   (check_tick env r w = Inr (r', w') \<longrightarrow>
      rs_lastReconfigure r' =
        (if \<not> Sub_positive (rs_lastReconfigure r) (rs_lastInboundUpdate r) \<and>
            rs_config r \<noteq> None \<and> Name (rs_node r) \<noteq> [] \<and>
            (\<exists>n w1. rs_configure env r False (snd (time_Now w)) = Inr ((None, n), r, w1))
         then fst (time_Now w) else rs_lastReconfigure r))"
proof (intro conjI impI)
  show "rs_configure env r force w = Inr (res, r', w') \<Longrightarrow> r' = r"
    by (rule rs_configure_receiver)
next
  show "force_tick env r w = Inr (r', w') \<Longrightarrow> rs_lastReconfigure r' = rs_lastReconfigure r"
    by (auto simp: force_tick_def split: if_splits sum.splits prod.splits
             dest: rs_configure_receiver)
next
  show "slow_tick env r w = Inr (r', w') \<Longrightarrow> rs_lastReconfigure r' = rs_lastReconfigure r"
    by (auto simp: slow_tick_def split: sum.splits prod.splits dest: rs_configure_receiver)
next
  show "rs_lastReconfigure (fst (rs_watches_config r cfg w)) = rs_lastReconfigure r"
    by (simp add: rs_watches_config_def split: prod.splits)
next
  show "rs_lastReconfigure (fst (rs_watches_nodes env r ns w)) = rs_lastReconfigure r"
    by (simp add: rs_watches_nodes_def split: prod.splits option.splits)
next
  assume a: "check_tick env r w = Inr (r', w')"
  obtain start w0 where t: "time_Now w = (start, w0)" by (cases "time_Now w")
  show "rs_lastReconfigure r' =
        (if \<not> Sub_positive (rs_lastReconfigure r) (rs_lastInboundUpdate r) \<and>
            rs_config r \<noteq> None \<and> Name (rs_node r) \<noteq> [] \<and>
            (\<exists>n w1. rs_configure env r False (snd (time_Now w)) = Inr ((None, n), r, w1))
         then fst (time_Now w) else rs_lastReconfigure r)"
    using a t
    by (auto simp: check_tick_def split: if_splits sum.splits prod.splits option.splits
             dest: rs_configure_receiver)
qed


lemma demo_rs_configure:
  "rs_configure demo_system demo_realserver force
      \<lparr>clock = c, ticks = ds, kern = demo_kstate [] True, parity_seen = []\<rparr>
     = Inr ((None, 0), demo_realserver,
            \<lparr>clock = c, ticks = ds,
             kern = (demo_kstate [''10.10.0.1''] True)
                      \<lparr>rules := demo_generate (Some (demo_config [''10.10.0.1'']))\<rparr>,
             parity_seen = []\<rparr>)"
  by (simp add: rs_configure_def checkConfigParity_def rs_setAddresses_def set_addresses_def
        call_def demo_system_def demo_realserver_def demo_kstate_def demo_config_def
        demo_generate_def DeepEqual_def chain_at_def Let_def)

theorem rs_lastReconfigure_only_by_check_tick_witness:
  "force_tick demo_system demo_realserver (demo_world (demo_kstate [] True) [5])
     = Inr (demo_realserver,
            \<lparr>clock = 100, ticks = [5],
             kern = (demo_kstate [''10.10.0.1''] True)
                      \<lparr>rules := demo_generate (Some (demo_config [''10.10.0.1'']))\<rparr>,
             parity_seen = []\<rparr>) \<and>
   slow_tick demo_system demo_realserver (demo_world (demo_kstate [] True) [5])
     = Inr (demo_realserver,
            \<lparr>clock = 100, ticks = [5],
             kern = (demo_kstate [''10.10.0.1''] True)
                      \<lparr>rules := demo_generate (Some (demo_config [''10.10.0.1'']))\<rparr>,
             parity_seen = []\<rparr>) \<and>
   rs_lastReconfigure demo_realserver = 0 \<and>
   check_tick demo_system demo_realserver (demo_world (demo_kstate [] True) [5])
     = Inr (demo_realserver\<lparr>rs_lastReconfigure := 105\<rparr>,
            \<lparr>clock = 105, ticks = [],
             kern = (demo_kstate [''10.10.0.1''] True)
                      \<lparr>rules := demo_generate (Some (demo_config [''10.10.0.1'']))\<rparr>,
             parity_seen = []\<rparr>) \<and>
   rs_lastReconfigure (demo_realserver\<lparr>rs_lastReconfigure := 105\<rparr>)
     = fst (time_Now (demo_world (demo_kstate [] True) [5]))"
proof -
  let ?w = "demo_world (demo_kstate [] True) [5]"
  let ?k = "(demo_kstate [''10.10.0.1''] True)
              \<lparr>rules := demo_generate (Some (demo_config [''10.10.0.1'']))\<rparr>"
  let ?w1 = "\<lparr>clock = 100, ticks = [5], kern = ?k, parity_seen = []\<rparr>"
  let ?w2 = "\<lparr>clock = 105, ticks = [], kern = ?k, parity_seen = []\<rparr>"
  let ?r2 = "demo_realserver\<lparr>rs_lastReconfigure := 105\<rparr>"
  have now: "time_Now ?w = (105, \<lparr>clock = 105, ticks = [], kern = demo_kstate [] True,
                                   parity_seen = []\<rparr>)"
    by (simp add: time_Now_def demo_world_def)
  have conf: "rs_configure demo_system demo_realserver True ?w
                = Inr ((None, 0), demo_realserver, ?w1)"
    using demo_rs_configure [of True 100 "[5]"] by (simp add: demo_world_def)
  have force: "force_tick demo_system demo_realserver ?w = Inr (demo_realserver, ?w1)"
    using conf by (simp add: force_tick_def demo_realserver_def)
  have slow: "slow_tick demo_system demo_realserver ?w = Inr (demo_realserver, ?w1)"
    using demo_rs_configure [of False 100 "[5]"] by (simp add: slow_tick_def demo_world_def)
  have fast: "rs_configure demo_system demo_realserver False (snd (time_Now ?w))
                = Inr ((None, 0), demo_realserver, ?w2)"
    using demo_rs_configure [of False 105 "[]"] by (simp add: now)
  have check: "check_tick demo_system demo_realserver ?w = Inr (?r2, ?w2)"
    using fast now
    by (simp add: check_tick_def Sub_positive_def demo_realserver_def demo_node_def)
  have cond: "\<not> Sub_positive (rs_lastReconfigure demo_realserver)
                  (rs_lastInboundUpdate demo_realserver) \<and>
              rs_config demo_realserver \<noteq> None \<and> Name (rs_node demo_realserver) \<noteq> [] \<and>
              (\<exists>n w1. rs_configure demo_system demo_realserver False (snd (time_Now ?w))
                         = Inr ((None, n), demo_realserver, w1))"
    using fast by (simp add: Sub_positive_def demo_realserver_def demo_node_def)
  from rs_lastReconfigure_only_by_check_tick
         [of demo_system demo_realserver False ?w _ ?r2 ?w2] check
  have "rs_lastReconfigure ?r2 =
          (if \<not> Sub_positive (rs_lastReconfigure demo_realserver)
                  (rs_lastInboundUpdate demo_realserver) \<and>
              rs_config demo_realserver \<noteq> None \<and> Name (rs_node demo_realserver) \<noteq> [] \<and>
              (\<exists>n w1. rs_configure demo_system demo_realserver False (snd (time_Now ?w))
                         = Inr ((None, n), demo_realserver, w1))
           then fst (time_Now ?w) else rs_lastReconfigure demo_realserver)"
    by blast
  then have adv: "rs_lastReconfigure ?r2 = fst (time_Now ?w)"
    by (simp only: if_P [OF cond])
  have zero: "rs_lastReconfigure demo_realserver = 0" by (simp add: demo_realserver_def)
  from force slow zero check adv show ?thesis by (intro conjI)
qed


subsection \<open>The realserver's parity check\<close>

text \<open>
  What the two comparisons of \<^verbatim>\<open>checkConfigParity\<close> decide. The sorted VIPs are deeply
  equal to a slice exactly when that slice is not \<^verbatim>\<open>nil\<close>, is in sorted order already and
  has the same elements; two sorted rule slices are deeply equal exactly when both or
  neither are \<^verbatim>\<open>nil\<close> and they have the same elements.
\<close>

lemma DeepEqual_sorted_vips:
  "DeepEqual (Slice (sort vs)) a
     = (a \<noteq> NilSlice \<and> sorted (elems a) \<and> sort (elems a) = sort vs)"
proof (cases a)
  case NilSlice
  then show ?thesis by (simp add: DeepEqual_def)
next
  case (Slice xs)
  have "(sort vs = xs) = (sorted xs \<and> sort xs = sort vs)"
  proof
    assume "sort vs = xs"
    then have "xs = sort vs" by simp
    then show "sorted xs \<and> sort xs = sort vs" by (simp add: sorted_sort_id)
  next
    assume "sorted xs \<and> sort xs = sort vs"
    then show "sort vs = xs" by (metis sorted_sort_id)
  qed
  with Slice show ?thesis by (simp add: DeepEqual_def)
qed

lemma DeepEqual_sorted_rules:
  "DeepEqual (sort_StringSlice e) (sort_StringSlice g)
     = ((e = NilSlice) = (g = NilSlice) \<and> sort (elems e) = sort (elems g))"
  by (cases e; cases g) (simp_all add: DeepEqual_def)

lemma existingRules_sorted:
  "(case m of Some k \<Rightarrow> sort_StringSlice (Rules k) | None \<Rightarrow> Slice [])
     = sort_StringSlice (case m of Some k \<Rightarrow> Rules k | None \<Rightarrow> Slice [])"
  by (cases m) simp_all

text \<open>
  C1. \<^verbatim>\<open>checkConfigParity\<close> returns \<^verbatim>\<open>(true, nil)\<close> when the config is
  \<^verbatim>\<open>nil\<close>, and \<^verbatim>\<open>false\<close> with the error when \<^verbatim>\<open>ipLoopback.Get\<close>, \<^verbatim>\<open>iptables.Save\<close>
  or \<^verbatim>\<open>iptables.GenerateRules\<close> fails. Otherwise it returns \<^verbatim>\<open>true\<close> exactly when the
  condition of the specification holds and, in addition, the addresses came back from
  \<^verbatim>\<open>ipLoopback.Get\<close> as a non-\<^verbatim>\<open>nil\<close> slice already in sorted order (the function sorts
  the VIPs and the rules, not the addresses), and the existing and the generated rules of
  the base chain are both \<^verbatim>\<open>nil\<close> or both not (an absent existing chain counting as
  the empty slice).
\<close>

theorem checkConfigParity_result:
  "(rs_config r = None \<longrightarrow> checkConfigParity env r w = ((True, None), w)) \<and>
   (rs_config r = Some c \<and> call (lo_Get env) w = (Inl err, w1)
      \<longrightarrow> checkConfigParity env r w = ((False, Some err), w1)) \<and>
   (rs_config r = Some c \<and> call (lo_Get env) w = (Inr addresses, w1) \<and>
    call (ipt_Save env) w1 = (Inl err, w2)
      \<longrightarrow> checkConfigParity env r w = ((False, Some err), w2)) \<and>
   (rs_config r = Some c \<and> call (lo_Get env) w = (Inr addresses, w1) \<and>
    call (ipt_Save env) w1 = (Inr existing, w2) \<and>
    call (ipt_GenerateRules env (Some c)) w2 = (Inl err, w3)
      \<longrightarrow> checkConfigParity env r w = ((False, Some err), w3)) \<and>
   (rs_config r = Some c \<and> call (lo_Get env) w = (Inr addresses, w1) \<and>
    call (ipt_Save env) w1 = (Inr existing, w2) \<and>
    call (ipt_GenerateRules env (Some c)) w2 = (Inr generated, w3) \<and>
    e = (case map_of existing (ipt_BaseChain env) of Some k \<Rightarrow> Rules k | None \<Rightarrow> Slice []) \<and>
    g = Rules (chain_at generated (ipt_BaseChain env))
      \<longrightarrow> checkConfigParity env r w
            = ((addresses \<noteq> NilSlice \<and> sorted (elems addresses) \<and>
                (e = NilSlice) = (g = NilSlice) \<and>
                parity_as_specified (elems addresses) (map fst (Config c)) (elems e) (elems g),
                None), w3))"
proof (intro conjI impI)
  assume "rs_config r = None"
  then show "checkConfigParity env r w = ((True, None), w)"
    by (simp add: checkConfigParity_def)
next
  assume "rs_config r = Some c \<and> call (lo_Get env) w = (Inl err, w1)"
  then show "checkConfigParity env r w = ((False, Some err), w1)"
    by (simp add: checkConfigParity_def)
next
  assume "rs_config r = Some c \<and> call (lo_Get env) w = (Inr addresses, w1) \<and>
    call (ipt_Save env) w1 = (Inl err, w2)"
  then show "checkConfigParity env r w = ((False, Some err), w2)"
    by (simp add: checkConfigParity_def)
next
  assume "rs_config r = Some c \<and> call (lo_Get env) w = (Inr addresses, w1) \<and>
    call (ipt_Save env) w1 = (Inr existing, w2) \<and>
    call (ipt_GenerateRules env (Some c)) w2 = (Inl err, w3)"
  then show "checkConfigParity env r w = ((False, Some err), w3)"
    by (simp add: checkConfigParity_def)
next
  assume a: "rs_config r = Some c \<and> call (lo_Get env) w = (Inr addresses, w1) \<and>
    call (ipt_Save env) w1 = (Inr existing, w2) \<and>
    call (ipt_GenerateRules env (Some c)) w2 = (Inr generated, w3) \<and>
    e = (case map_of existing (ipt_BaseChain env) of Some k \<Rightarrow> Rules k | None \<Rightarrow> Slice []) \<and>
    g = Rules (chain_at generated (ipt_BaseChain env))"
  then have "checkConfigParity env r w
      = ((DeepEqual (Slice (sort (map fst (Config c)))) addresses \<and>
          DeepEqual (sort_StringSlice e) (sort_StringSlice g), None), w3)"
    by (simp add: checkConfigParity_def existingRules_sorted)
  then show "checkConfigParity env r w
            = ((addresses \<noteq> NilSlice \<and> sorted (elems addresses) \<and>
                (e = NilSlice) = (g = NilSlice) \<and>
                parity_as_specified (elems addresses) (map fst (Config c)) (elems e) (elems g),
                None), w3)"
    by (simp only: DeepEqual_sorted_vips DeepEqual_sorted_rules parity_as_specified_def
          conj_ac)
qed

lemma demo_checkConfigParity:
  "checkConfigParity demo_system
      (demo_realserver\<lparr>rs_config := Some (demo_config [''10.10.0.2'', ''10.10.0.1''])\<rparr>)
      (demo_world ((demo_kstate addrs True)
         \<lparr>rules := demo_generate (Some (demo_config [''10.10.0.2'', ''10.10.0.1'']))\<rparr>) [])
     = ((Slice [''10.10.0.1'', ''10.10.0.2''] = Slice addrs, None),
        demo_world ((demo_kstate addrs True)
         \<lparr>rules := demo_generate (Some (demo_config [''10.10.0.2'', ''10.10.0.1'']))\<rparr>) [])"
  by (simp add: checkConfigParity_def call_def demo_system_def demo_realserver_def
        demo_world_def demo_kstate_def demo_config_def demo_generate_def DeepEqual_def
        chain_at_def Let_def)

theorem checkConfigParity_counterexample:
  "fst (lo_Get demo_system ((demo_kstate [''10.10.0.2'', ''10.10.0.1''] True)
         \<lparr>rules := demo_generate (Some (demo_config [''10.10.0.2'', ''10.10.0.1'']))\<rparr>))
     = Inr (Slice [''10.10.0.2'', ''10.10.0.1'']) \<and>
   map fst (Config (demo_config [''10.10.0.2'', ''10.10.0.1'']))
     = [''10.10.0.2'', ''10.10.0.1''] \<and>
   parity_as_specified [''10.10.0.2'', ''10.10.0.1''] [''10.10.0.2'', ''10.10.0.1'']
     [''-d 10.10.0.2'', ''-d 10.10.0.1''] [''-d 10.10.0.2'', ''-d 10.10.0.1''] \<and>
   fst (checkConfigParity demo_system
      (demo_realserver\<lparr>rs_config := Some (demo_config [''10.10.0.2'', ''10.10.0.1''])\<rparr>)
      (demo_world ((demo_kstate [''10.10.0.2'', ''10.10.0.1''] True)
         \<lparr>rules := demo_generate (Some (demo_config [''10.10.0.2'', ''10.10.0.1'']))\<rparr>) []))
     = (False, None)"
  by (simp add: demo_checkConfigParity parity_as_specified_def)
    (simp add: demo_system_def demo_kstate_def demo_config_def)

theorem checkConfigParity_result_witness:
  "rs_config (demo_realserver\<lparr>rs_config := Some (demo_config [''10.10.0.2'', ''10.10.0.1''])\<rparr>)
     = Some (demo_config [''10.10.0.2'', ''10.10.0.1'']) \<and>
   fst (lo_Get demo_system ((demo_kstate [''10.10.0.1'', ''10.10.0.2''] True)
         \<lparr>rules := demo_generate (Some (demo_config [''10.10.0.2'', ''10.10.0.1'']))\<rparr>))
     = Inr (Slice [''10.10.0.1'', ''10.10.0.2'']) \<and>
   checkConfigParity demo_system
      (demo_realserver\<lparr>rs_config := Some (demo_config [''10.10.0.2'', ''10.10.0.1''])\<rparr>)
      (demo_world ((demo_kstate [''10.10.0.1'', ''10.10.0.2''] True)
         \<lparr>rules := demo_generate (Some (demo_config [''10.10.0.2'', ''10.10.0.1'']))\<rparr>) [])
     = ((True, None),
        demo_world ((demo_kstate [''10.10.0.1'', ''10.10.0.2''] True)
         \<lparr>rules := demo_generate (Some (demo_config [''10.10.0.2'', ''10.10.0.1'']))\<rparr>) [])"
proof -
  let ?c = "demo_config [''10.10.0.2'', ''10.10.0.1'']"
  let ?r = "demo_realserver\<lparr>rs_config := Some ?c\<rparr>"
  let ?k = "(demo_kstate [''10.10.0.1'', ''10.10.0.2''] True)\<lparr>rules := demo_generate (Some ?c)\<rparr>"
  let ?w = "demo_world ?k []"
  let ?e = "Slice [''-d 10.10.0.2'', ''-d 10.10.0.1'']"
  have cfg: "rs_config ?r = Some ?c" by simp
  have get: "call (lo_Get demo_system) ?w = (Inr (Slice [''10.10.0.1'', ''10.10.0.2'']), ?w)"
    by (simp add: call_def demo_system_def demo_world_def demo_kstate_def)
  have save: "call (ipt_Save demo_system) ?w = (Inr (demo_generate (Some ?c)), ?w)"
    by (simp add: call_def demo_system_def demo_world_def demo_kstate_def)
  have gen: "call (ipt_GenerateRules demo_system (Some ?c)) ?w
               = (Inr (demo_generate (Some ?c)), ?w)"
    by (simp add: call_def demo_system_def demo_world_def demo_kstate_def)
  have e: "?e = (case map_of (demo_generate (Some ?c)) (ipt_BaseChain demo_system) of
                   Some k \<Rightarrow> Rules k | None \<Rightarrow> Slice [])"
    by (simp add: demo_generate_def demo_system_def demo_config_def)
  have g: "?e = Rules (chain_at (demo_generate (Some ?c)) (ipt_BaseChain demo_system))"
    by (simp add: demo_generate_def demo_system_def demo_config_def chain_at_def)
  note inst = checkConfigParity_result
         [where r = ?r and env = demo_system and w = ?w and c = ?c
            and addresses = "Slice [''10.10.0.1'', ''10.10.0.2'']"
            and ?w1.0 = ?w and ?w2.0 = ?w and ?w3.0 = ?w
            and existing = "demo_generate (Some ?c)" and generated = "demo_generate (Some ?c)"
            and e = ?e and g = ?e]
  from inst cfg get save gen e g
  have "checkConfigParity demo_system ?r ?w
            = ((Slice [''10.10.0.1'', ''10.10.0.2''] \<noteq> NilSlice \<and>
                sorted (elems (Slice [''10.10.0.1'', ''10.10.0.2''])) \<and>
                (?e = NilSlice) = (?e = NilSlice) \<and>
                parity_as_specified (elems (Slice [''10.10.0.1'', ''10.10.0.2'']))
                  (map fst (Config ?c)) (elems ?e) (elems ?e),
                None), ?w)"
    by blast
  then have "checkConfigParity demo_system ?r ?w = ((True, None), ?w)"
    by (simp add: parity_as_specified_def demo_config_def)
  moreover have "fst (lo_Get demo_system ?k) = Inr (Slice [''10.10.0.1'', ''10.10.0.2''])"
    by (simp add: demo_system_def demo_kstate_def)
  ultimately show ?thesis using cfg by blast
qed



subsection \<open>The throttle after an update\<close>


















subsection \<open>The director's newConfig flag\<close>












end
